theory Spec2Isabelle
  imports Main
begin

section \<open>Values, field paths and schemas\<close>

text \<open>
  A form's value object maps field paths to JavaScript values. A path that the object
  does not hold reads as \<open>undefined\<close>, as a property access does in the source language.
\<close>

datatype jsval = JUndefined | JBool bool | JStr string | JNum int

type_synonym path = string

type_synonym formvalues = "path \<rightharpoonup> jsval"

type_synonym field_errors = "path \<rightharpoonup> string"

text \<open>
  The schema is a prop of \<open>GenericForm\<close> (\<open>schema?: z.ZodSchema<T>\<close>), supplied by the
  caller: given a candidate value object it returns either the path-keyed error messages
  (\<open>Inl\<close>) or the accepted, typed value (\<open>Inr\<close>).
\<close>

type_synonym schema = "formvalues \<Rightarrow> field_errors + formvalues"

definition get :: "formvalues \<Rightarrow> path \<Rightarrow> jsval" where
  "get vs p = (case vs p of None \<Rightarrow> JUndefined | Some v \<Rightarrow> v)"

definition dflt :: "'a \<Rightarrow> 'a option \<Rightarrow> 'a" where
  \<comment> \<open>A destructuring default \<open>{x = d}\<close>: the default stands in for \<open>undefined\<close>.\<close>
  "dflt d x = (case x of None \<Rightarrow> d | Some v \<Rightarrow> v)"

section \<open>The external form-state manager\<close>

text \<open>
  Modelled from the spec: the form-state hook \<open>useForm\<close> and the resolver adapter
  \<open>zodResolver\<close> are imported from external packages and are not among the sources.
  The spec describes them as a form-state manager holding the value object, with a
  mutation API, a reset that "clears to initial values", a submission that "invokes the
  submit handler with validated data", and validation delegated to the schema, whose
  rejection yields path-keyed error messages. The record below is the state such a
  manager keeps for one form.
\<close>

record FormState =
  errors :: field_errors
  isSubmitted :: bool

record form =
  ctl_defaultValues :: formvalues
  ctl_formValues :: formvalues
  ctl_formState :: FormState
  ctl_resolver :: "schema option"

text \<open>The options object the source passes to the hook: \<open>{defaultValues, resolver}\<close>.\<close>

record UseFormProps =
  defaultValues :: formvalues
  resolver :: "schema option"

text \<open>
  Modelled from the spec: \<open>zodResolver\<close> (external). Validation is delegated to the
  schema object; the resolver answers with what the schema answers.
\<close>

definition zodResolver :: "schema \<Rightarrow> schema" where
  "zodResolver s = s"

text \<open>
  Modelled from the spec: creation of the form state on the first call of the hook
  (external). The current values start as the default values, with no errors.
\<close>

definition createFormControl :: "UseFormProps \<Rightarrow> form" where
  "createFormControl opts =
     \<lparr>ctl_defaultValues = defaultValues opts,
      ctl_formValues = defaultValues opts,
      ctl_formState = \<lparr>errors = Map.empty, isSubmitted = False\<rparr>,
      ctl_resolver = resolver opts\<rparr>"

text \<open>Modelled from the spec: \<open>form.getValues\<close> (external), the current value object.\<close>

definition getValues :: "form \<Rightarrow> formvalues" where
  "getValues f = ctl_formValues f"

text \<open>
  Modelled from the spec: \<open>form.setValue\<close> (external), the mutation API: the value at
  one path is replaced.
\<close>

definition setValue :: "path \<Rightarrow> jsval \<Rightarrow> form \<Rightarrow> form" where
  "setValue n v f = f\<lparr>ctl_formValues := (ctl_formValues f)(n \<mapsto> v)\<rparr>"

text \<open>
  Modelled from the spec: \<open>form.reset\<close> (external). Without an argument the values go
  back to the default values and the errors are cleared ("reset clears to initial
  values"). The spec does not describe a reset with an argument; the behaviour documented
  for the library is taken: the given object becomes both the current and the default
  values.
\<close>

definition reset :: "formvalues option \<Rightarrow> form \<Rightarrow> form" where
  "reset vs f =
     (case vs of
        None \<Rightarrow>
          f\<lparr>ctl_formValues := ctl_defaultValues f,
            ctl_formState := \<lparr>errors = Map.empty, isSubmitted = False\<rparr>\<rparr>
      | Some v \<Rightarrow>
          f\<lparr>ctl_defaultValues := v, ctl_formValues := v,
            ctl_formState := \<lparr>errors = Map.empty, isSubmitted = False\<rparr>\<rparr>)"

text \<open>
  Modelled from the spec: \<open>form.handleSubmit\<close> (external). The handler it returns runs
  the resolver, when there is one, on the current values. On acceptance the submit
  handler is called with the accepted data; on rejection the errors are stored and the
  submit handler is not called. Without a resolver the submit handler is called with the
  current values. The second component is the result of the call, \<open>None\<close> when the
  handler was not called.
\<close>

definition handleSubmit :: "(formvalues \<Rightarrow> 'e) \<Rightarrow> form \<Rightarrow> form \<times> 'e option" where
  "handleSubmit onValid f =
     (case ctl_resolver f of
        None \<Rightarrow>
          (f\<lparr>ctl_formState := \<lparr>errors = Map.empty, isSubmitted = True\<rparr>\<rparr>,
           Some (onValid (ctl_formValues f)))
      | Some r \<Rightarrow>
          (case r (ctl_formValues f) of
             Inl errs \<Rightarrow>
               (f\<lparr>ctl_formState := \<lparr>errors = errs, isSubmitted = True\<rparr>\<rparr>, None)
           | Inr data \<Rightarrow>
               (f\<lparr>ctl_formState := \<lparr>errors = Map.empty, isSubmitted = True\<rparr>\<rparr>,
                Some (onValid data))))"

section \<open>Rendered markup\<close>

text \<open>
  Event handlers that the components pass down are kept as tokens: the field's
  \<open>onChange\<close> and \<open>onBlur\<close> of a path, the form's submit handler, and the caller's
  \<open>action\<close> callback of a text field.
\<close>

datatype handler = OnChange path | OnBlur path | HandleSubmit | PropAction

text \<open>
  A prop value. \<open>PCn\<close> is a call \<open>cn(a, b, c)\<close> of the class-name helper (in
  \<open>lib/utils\<close>, not among the sources), kept with its arguments; an absent optional
  argument is \<open>None\<close>.
\<close>

datatype propval =
    PUndefined
  | PString string
  | PBool bool
  | PNum int
  | PValue jsval
  | PHandler handler
  | PCn "string option list"

datatype markup = El string "(string \<times> propval) list" "markup list" | Txt string

text \<open>
  The props of a JSX element are written left to right, a spread \<open>{...field}\<close> included,
  and a later prop of the same name replaces an earlier one.
\<close>

definition props_get :: "(string \<times> propval) list \<Rightarrow> string \<Rightarrow> propval" where
  "props_get ps k = (case map_of (rev ps) k of None \<Rightarrow> PUndefined | Some v \<Rightarrow> v)"

fun prop_of :: "string \<Rightarrow> markup \<Rightarrow> propval" where
  "prop_of k (El t ps cs) = props_get ps k"
| "prop_of k (Txt s) = PUndefined"

fun find_tag :: "string \<Rightarrow> markup \<Rightarrow> markup list" where
  "find_tag t (El t' ps cs) =
     (if t' = t then [El t' ps cs] else []) @ concat (map (find_tag t) cs)"
| "find_tag t (Txt s) = []"

fun texts :: "markup \<Rightarrow> string list" where
  "texts (El t ps cs) = concat (map texts cs)"
| "texts (Txt s) = [s]"

definition str_or_undefined :: "string option \<Rightarrow> propval" where
  "str_or_undefined x = (case x of None \<Rightarrow> PUndefined | Some s \<Rightarrow> PString s)"

definition bool_or_undefined :: "bool option \<Rightarrow> propval" where
  "bool_or_undefined x = (case x of None \<Rightarrow> PUndefined | Some b \<Rightarrow> PBool b)"

text \<open>
  A component is rendered under the form provider: it receives the snapshot of the form
  state that \<open>useFormContext()\<close> would give it and returns its markup.
\<close>

type_synonym component = "form \<Rightarrow> markup"

text \<open>
  JavaScript truthiness as used by \<open>label && ...\<close> and \<open>required && ...\<close> among the
  children of an element: \<open>undefined\<close>, the empty string and \<open>false\<close> render nothing.
\<close>

definition when_str :: "string option \<Rightarrow> (string \<Rightarrow> markup list) \<Rightarrow> markup list" where
  "when_str x f = (case x of None \<Rightarrow> [] | Some s \<Rightarrow> if s = [] then [] else f s)"

definition truthy_bool :: "bool option \<Rightarrow> bool" where
  "truthy_bool x = (case x of None \<Rightarrow> False | Some b \<Rightarrow> b)"

definition when_true :: "bool \<Rightarrow> markup list \<Rightarrow> markup list" where
  "when_true c ms = (if c then ms else [])"

definition template_str :: "string option \<Rightarrow> string" where
  \<comment> \<open>\<open>${x}\<close> inside a template literal: \<open>undefined\<close> prints as the word.\<close>
  "template_str x = (case x of None \<Rightarrow> ''undefined'' | Some s \<Rightarrow> s)"

section \<open>The form primitives of components/ui/form\<close>

text \<open>
  The object that the render prop of \<open>FormField\<close> receives as \<open>field\<close>, and what
  \<open>{...field}\<close> spreads onto an element (its \<open>ref\<close>, an address in the document, is
  left out).
\<close>

record ControllerField =
  field_onChange :: handler
  field_onBlur :: handler
  field_value :: jsval
  field_name :: path

definition spread_field :: "ControllerField \<Rightarrow> (string \<times> propval) list" where
  "spread_field field =
     [(''onChange'', PHandler (field_onChange field)),
      (''onBlur'', PHandler (field_onBlur field)),
      (''value'', PValue (field_value field)),
      (''name'', PString (field_name field))]"

text \<open>What the primitives inside a \<open>FormField\<close> read about their field.\<close>

record FieldContext =
  fc_name :: path
  fc_error :: "string option"

text \<open>
  Modelled from the spec: \<open>FormField\<close> of \<open>components/ui/form\<close>, which is not among the
  sources. The spec has it propagate the per-field render state from the shared form
  context to the leaf component: the render prop receives the field bound to the path,
  whose value is the value the form state holds at that path, and the primitives below it
  see the path's validation error.
\<close>

definition FormField ::
  "form \<Rightarrow> path \<Rightarrow> (ControllerField \<Rightarrow> FieldContext \<Rightarrow> markup) \<Rightarrow> markup" where
  "FormField control n render =
     render
       \<lparr>field_onChange = OnChange n, field_onBlur = OnBlur n,
        field_value = get (ctl_formValues control) n, field_name = n\<rparr>
       \<lparr>fc_name = n, fc_error = errors (ctl_formState control) n\<rparr>"

text \<open>
  Modelled from the spec: \<open>FormMessage\<close> of \<open>components/ui/form\<close>, which is not among
  the sources: the message slot of a field, showing the validation error text of the
  field's path when the schema rejected the input.
\<close>

definition FormMessage :: "FieldContext \<Rightarrow> (string \<times> propval) list \<Rightarrow> markup" where
  "FormMessage fc ps =
     El ''FormMessage'' ps (case fc_error fc of None \<Rightarrow> [] | Some m \<Rightarrow> [Txt m])"

section \<open>The field components\<close>

record BaseFieldProps =
  name :: path
  label :: "string option"
  placeholder :: "string option"
  required :: "bool option"
  disabled :: "bool option"
  className :: "string option"

subsection \<open>TextField\<close>

datatype InputType = TText | TEmail | TNumber | TPassword | TTel | TUrl

fun input_type_str :: "InputType \<Rightarrow> string" where
  "input_type_str TText = ''text''"
| "input_type_str TEmail = ''email''"
| "input_type_str TNumber = ''number''"
| "input_type_str TPassword = ''password''"
| "input_type_str TTel = ''tel''"
| "input_type_str TUrl = ''url''"

record TextFieldProps = BaseFieldProps +
  input_type :: "InputType option"
  action :: "handler option"
  icon :: "markup option"
  loading :: "bool option"
  inputClass :: "string option"

definition TextField :: "TextFieldProps \<Rightarrow> component" where
  "TextField p ctx =
     (let type' = dflt TText (input_type p);
          placeholder' = dflt ''Enter value'' (placeholder p);
          required' = dflt False (required p);
          icon' = dflt (El ''X'' [(''size'', PNum 16),
                                  (''className'', PString ''text-muted-foreground'')] [])
                    (icon p);
          disabled' = dflt False (disabled p);
          control = ctx
      in FormField control (name p) (\<lambda>field fc.
           El ''FormItem'' [(''className'', str_or_undefined (className p))]
             (when_str (label p) (\<lambda>l.
                [El ''FormLabel'' [(''htmlFor'', PString (name p))]
                   (El ''span'' [] [Txt l]
                    # when_true required'
                        [El ''span'' [(''className'', PString ''ml-1 text-red-500'')]
                           [Txt ''*'']])])
              @ [El ''FormControl'' []
                   [El ''div'' [(''className'', PString ''relative flex items-center gap-2'')]
                      (El ''Input''
                         (spread_field field
                          @ [(''type'', PString (input_type_str type')),
                             (''placeholder'', PString placeholder'),
                             (''className'',
                                PString (''w-full '' @ template_str (inputClass p) @ '' ''
                                         @ (if action p \<noteq> None then ''pr-12'' else []))),
                             (''id'', PString (name p)),
                             (''disabled'', PBool disabled')])
                         []
                       # when_true (truthy_bool (loading p))
                           [El ''div''
                              [(''className'',
                                  PString ''absolute right-4 animate-spin rounded-full h-4 w-4 border-2 border-gray-300 border-t-gray-600'')]
                              []]
                       @ (case action p of
                            None \<Rightarrow> []
                          | Some a \<Rightarrow>
                              [El ''Button''
                                 [(''variant'', PString ''ghost''),
                                  (''size'', PString ''sm''),
                                  (''onClick'', PHandler a),
                                  (''type'', PString ''button''),
                                  (''className'', PString ''absolute right-0.5 top-0.5''),
                                  (''disabled'', PBool disabled')]
                                 [icon']]))],
                 FormMessage fc [(''className'', PString ''line-clamp-1 text-xs'')]])))"

subsection \<open>SelectField\<close>

record SelectOption =
  so_value :: string
  so_text :: string
  so_disabled :: "bool option"

record SelectFieldProps = BaseFieldProps +
  options :: "SelectOption list"

definition SelectField :: "SelectFieldProps \<Rightarrow> component" where
  "SelectField p ctx =
     (let placeholder' = dflt ''Select an option'' (placeholder p);
          required' = dflt False (required p);
          disabled' = dflt False (disabled p);
          control = ctx
      in FormField control (name p) (\<lambda>field fc.
           El ''FormItem'' [(''className'', str_or_undefined (className p))]
             (when_str (label p) (\<lambda>l.
                [El ''FormLabel'' []
                   (El ''span'' [] [Txt l]
                    # when_true required'
                        [El ''span'' [(''className'', PString ''ml-1 text-red-500'')]
                           [Txt ''*'']])])
              @ [El ''Select''
                   [(''onValueChange'', PHandler (field_onChange field)),
                    (''value'', PValue (field_value field)),
                    (''disabled'', PBool disabled')]
                   [El ''FormControl'' []
                      [El ''SelectTrigger'' []
                         [El ''SelectValue'' [(''placeholder'', PString placeholder')] []]],
                    El ''SelectContent'' []
                      (map (\<lambda>option.
                              El ''SelectItem''
                                [(''key'', PString (so_value option)),
                                 (''value'', PString (so_value option)),
                                 (''disabled'', bool_or_undefined (so_disabled option))]
                                [Txt (so_text option)])
                         (options p))],
                 FormMessage fc []])))"

subsection \<open>CheckboxField\<close>

definition CheckboxField :: "BaseFieldProps \<Rightarrow> component" where
  "CheckboxField p ctx =
     (let control = ctx
      in FormField control (name p) (\<lambda>field fc.
           El ''FormItem''
             [(''className'',
                 PCn [Some ''flex flex-row items-start space-x-3 space-y-0'', className p])]
             [El ''FormControl'' []
                [El ''Checkbox''
                   [(''checked'', PValue (field_value field)),
                    (''onCheckedChange'', PHandler (field_onChange field)),
                    (''disabled'', bool_or_undefined (disabled p)),
                    (''required'', bool_or_undefined (required p))]
                   []],
              El ''div'' [(''className'', PString ''space-y-1 leading-none'')]
                (when_str (label p) (\<lambda>l.
                   [El ''FormLabel'' [(''className'', PString ''text-sm font-normal'')]
                      (Txt l
                       # when_true (truthy_bool (required p))
                           [El ''span'' [(''className'', PString ''text-destructive ml-1'')]
                              [Txt ''*'']])])
                 @ [FormMessage fc []])]))"

section \<open>SubmitButton\<close>

datatype width = Full | Auto

record SubmitButtonProps =
  sb_label :: "string option"
  sb_loadingLabel :: "string option"
  sb_isLoading :: "bool option"
  sb_disabled :: "bool option"
  sb_width :: "width option"
  sb_className :: "string option"

definition SubmitButton :: "SubmitButtonProps \<Rightarrow> component" where
  "SubmitButton p ctx =
     (let label = dflt ''Submit'' (sb_label p);
          loadingLabel = dflt ''Submitting...'' (sb_loadingLabel p);
          isLoading = dflt False (sb_isLoading p);
          disabled = dflt False (sb_disabled p);
          width = dflt Full (sb_width p)
      in El ''Button''
           [(''type'', PString ''submit''),
            (''className'',
               PCn [Some ''transition-all duration-200'',
                    Some (if width = Full then ''w-full'' else ''w-auto''),
                    sb_className p]),
            (''disabled'', PBool (isLoading \<or> disabled))]
           [if isLoading
            then El ''div'' [(''className'', PString ''flex items-center gap-2'')]
                   [El ''div''
                      [(''className'',
                          PString ''w-4 h-4 border-2 border-white/30 border-t-white rounded-full animate-spin'')]
                      [],
                    Txt loadingLabel]
            else Txt label])"

section \<open>GenericForm\<close>

text \<open>
  The form object that the hook returns is the same object on every render of a mounted
  form, and the closures of the imperative handle hold on to it. The objects live in a
  store; a reference is the address of one of them.
\<close>

type_synonym form_ref = nat

record store =
  next_ref :: form_ref
  objs :: "form_ref \<Rightarrow> form"

definition update_form :: "form_ref \<Rightarrow> (form \<Rightarrow> form) \<Rightarrow> store \<Rightarrow> store" where
  "update_form r g s = s\<lparr>objs := (objs s)(r := g (objs s r))\<rparr>"

text \<open>
  Modelled from the spec: the hook \<open>useForm\<close> (external). Its hook state is \<open>None\<close> on
  the first render of a form, when the form object is created from the options, and the
  reference of that object afterwards, when the same object is returned and only the
  resolver of the current options is taken over.
\<close>

definition useForm :: "UseFormProps \<Rightarrow> form_ref option \<Rightarrow> store \<Rightarrow> form_ref \<times> store" where
  "useForm opts hook s =
     (case hook of
        None \<Rightarrow>
          (next_ref s,
           s\<lparr>next_ref := Suc (next_ref s),
             objs := (objs s)(next_ref s := createFormControl opts)\<rparr>)
      | Some r \<Rightarrow> (r, update_form r (\<lambda>f. f\<lparr>ctl_resolver := resolver opts\<rparr>) s))"

record 'e GenericFormProps =
  schema :: "schema option"
  initialValues :: formvalues
  onSubmit :: "formvalues \<Rightarrow> 'e"
  children :: "component list"
  form_className :: "string option"

text \<open>
  The members of the object literal that \<open>GenericForm\<close> hands to
  \<open>useImperativeHandle\<close>: three functions, the form-state snapshot of the render, and the
  control and form objects themselves.
\<close>

datatype ref_member =
    GetValuesFn "store \<Rightarrow> formvalues"
  | ResetFn "formvalues option \<Rightarrow> store \<Rightarrow> store"
  | SetValueFn "path \<Rightarrow> jsval \<Rightarrow> store \<Rightarrow> store"
  | FormStateVal FormState
  | ControlObj form_ref
  | FormObj form_ref

type_synonym GenericFormRef = "(string \<times> ref_member) list"

definition member :: "GenericFormRef \<Rightarrow> string \<Rightarrow> ref_member option" where
  \<comment> \<open>Property access on the handle; a later key of an object literal wins.\<close>
  "member h k = map_of (rev h) k"

definition ref_getValues :: "form_ref \<Rightarrow> store \<Rightarrow> formvalues" where
  \<comment> \<open>\<open>getValues: form.getValues\<close>\<close>
  "ref_getValues form s = getValues (objs s form)"

definition ref_reset :: "form_ref \<Rightarrow> formvalues option \<Rightarrow> store \<Rightarrow> store" where
  \<comment> \<open>\<open>reset: (values) => form.reset(values)\<close>\<close>
  "ref_reset form vs s = update_form form (reset vs) s"

definition ref_setValue :: "form_ref \<Rightarrow> path \<Rightarrow> jsval \<Rightarrow> store \<Rightarrow> store" where
  \<comment> \<open>\<open>setValue: (name, value) => form.setValue(name, value)\<close>\<close>
  "ref_setValue form n v s = update_form form (setValue n v) s"

text \<open>
  One render of \<open>GenericForm\<close>: the hook call, the handle that \<open>useImperativeHandle\<close>
  stores in \<open>ref.current\<close> (its factory runs at every render, there is no dependency
  list), and the markup, in which the provider \<open>Form\<close>, given the form object by
  \<open>{...form}\<close>, hands every child the current snapshot of the form state. The result is
  the form reference (the hook state of the next render), the store, the handle and the
  markup.
\<close>

definition GenericForm ::
  "'e GenericFormProps \<Rightarrow> form_ref option \<Rightarrow> store
     \<Rightarrow> form_ref \<times> store \<times> GenericFormRef \<times> markup" where
  "GenericForm p hook s =
     (let (form, s') =
            useForm
              \<lparr>defaultValues = initialValues p,
               resolver = (case schema p of None \<Rightarrow> None | Some sc \<Rightarrow> Some (zodResolver sc))\<rparr>
              hook s;
          handle =
            [(''getValues'', GetValuesFn (ref_getValues form)),
             (''reset'', ResetFn (ref_reset form)),
             (''setValue'', SetValueFn (ref_setValue form)),
             (''formState'', FormStateVal (ctl_formState (objs s' form))),
             (''control'', ControlObj form),
             (''form'', FormObj form)]
      in (form, s', handle,
          El ''Form'' []
            [El ''form''
               [(''onSubmit'', PHandler HandleSubmit),
                (''className'', str_or_undefined (form_className p))]
               (map (\<lambda>child. child (objs s' form)) (children p))]))"

text \<open>The handler \<open>form.handleSubmit(onSubmit)\<close> that the form element carries.\<close>

definition form_onSubmit :: "'e GenericFormProps \<Rightarrow> form_ref \<Rightarrow> store \<Rightarrow> store \<times> 'e option" where
  "form_onSubmit p form s =
     (let (f', res) = handleSubmit (onSubmit p) (objs s form)
      in (s\<lparr>objs := (objs s)(form := f')\<rparr>, res))"

text \<open>
  Modelled from the spec: \<open>field.onChange\<close> (external): user input is applied to the
  form state through the mutation API of the state manager.
\<close>

definition field_onChange_fire :: "form_ref \<Rightarrow> path \<Rightarrow> jsval \<Rightarrow> store \<Rightarrow> store" where
  "field_onChange_fire form n v s = update_form form (setValue n v) s"

text \<open>
  What happens to a mounted form between two renders: the user changes a field or submits,
  code outside the form calls the handle, or the form renders again.
\<close>

datatype action =
    UserChange path jsval
  | UserSubmit
  | CallSetValue path jsval
  | CallReset "formvalues option"
  | Rerender

fun step :: "'e GenericFormProps \<Rightarrow> form_ref \<Rightarrow> action \<Rightarrow> store \<Rightarrow> store" where
  "step p form (UserChange n v) s = field_onChange_fire form n v s"
| "step p form UserSubmit s = fst (form_onSubmit p form s)"
| "step p form (CallSetValue n v) s = ref_setValue form n v s"
| "step p form (CallReset vs) s = ref_reset form vs s"
| "step p form Rerender s = fst (snd (GenericForm p (Some form) s))"

fun run :: "'e GenericFormProps \<Rightarrow> form_ref \<Rightarrow> action list \<Rightarrow> store \<Rightarrow> store" where
  "run p form [] s = s"
| "run p form (a # as) s = run p form as (step p form a s)"



section \<open>Reading rendered markup\<close>

text \<open>
  The first and the last element of a tag in document order. The input, select and
  checkbox element of a field component is the first of its tag; its message slot is the
  last \<open>FormMessage\<close> (an icon passed by the caller may hold elements of its own, and it
  is rendered between the two).
\<close>

definition first_tag :: "string \<Rightarrow> markup \<Rightarrow> markup option" where
  "first_tag t m = (case find_tag t m of [] \<Rightarrow> None | x # xs \<Rightarrow> Some x)"

definition last_tag :: "string \<Rightarrow> markup \<Rightarrow> markup option" where
  "last_tag t m = (case rev (find_tag t m) of [] \<Rightarrow> None | x # xs \<Rightarrow> Some x)"

definition shown :: "string \<Rightarrow> string \<Rightarrow> markup \<Rightarrow> propval option" where
  \<comment> \<open>The prop \<open>k\<close> of the first element of tag \<open>t\<close>.\<close>
  "shown t k m = map_option (prop_of k) (first_tag t m)"

definition message_text :: "markup \<Rightarrow> string list" where
  "message_text m = (case last_tag ''FormMessage'' m of None \<Rightarrow> [] | Some e \<Rightarrow> texts e)"

section \<open>The example form\<close>

text \<open>
  Data of \<open>example/UserRegistrationForm.tsx\<close>, used to run the definitions: the initial
  values, the department options, the first-name rule of its schema
  (\<open>z.string().min(2, 'First name must be at least 2 characters')\<close>), some of its
  fields, a form made of them, and a store in which no form has been mounted yet.
\<close>

definition example_initialValues :: formvalues where
  "example_initialValues =
     [''firstName'' \<mapsto> JStr [], ''lastName'' \<mapsto> JStr [], ''email'' \<mapsto> JStr [],
      ''department'' \<mapsto> JStr ''engineering'', ''role'' \<mapsto> JStr []]"

definition departmentOptions :: "SelectOption list" where
  "departmentOptions =
     [\<lparr>so_value = ''engineering'', so_text = ''Engineering'', so_disabled = None\<rparr>,
      \<lparr>so_value = ''marketing'', so_text = ''Marketing'', so_disabled = None\<rparr>,
      \<lparr>so_value = ''sales'', so_text = ''Sales'', so_disabled = None\<rparr>,
      \<lparr>so_value = ''hr'', so_text = ''Human Resources'', so_disabled = None\<rparr>]"

definition firstNameSchema :: schema where
  "firstNameSchema vs =
     (case vs ''firstName'' of
        Some (JStr s) \<Rightarrow>
          if 2 \<le> length s then Inr vs
          else Inl [''firstName'' \<mapsto> ''First name must be at least 2 characters'']
      | _ \<Rightarrow> Inl [''firstName'' \<mapsto> ''Invalid input''])"

definition firstName_field :: TextFieldProps where
  "firstName_field =
     \<lparr>name = ''firstName'', label = Some ''First Name'',
      placeholder = Some ''Enter your first name'', required = Some True,
      disabled = None, className = None, input_type = None, action = None, icon = None,
      loading = None, inputClass = None\<rparr>"

definition department_field :: SelectFieldProps where
  "department_field =
     \<lparr>name = ''department'', label = Some ''Department'',
      placeholder = Some ''Select your department'', required = Some True,
      disabled = None, className = None, options = departmentOptions\<rparr>"

definition agree_field :: BaseFieldProps where
  \<comment> \<open>The checkbox of the doc comment of \<open>CheckboxField\<close>.\<close>
  "agree_field =
     \<lparr>name = ''agreeToTerms'', label = Some ''I agree to the terms'',
      placeholder = None, required = Some True, disabled = None, className = None\<rparr>"

definition register_button :: SubmitButtonProps where
  "register_button =
     \<lparr>sb_label = Some ''Register User'', sb_loadingLabel = Some ''Creating Account...'',
      sb_isLoading = None, sb_disabled = None, sb_width = None,
      sb_className = Some ''bg-blue-600 hover:bg-blue-700 text-white''\<rparr>"

definition example_form :: "formvalues GenericFormProps" where
  \<comment> \<open>The submit handler is the identity, so that a call shows the data it was given.\<close>
  "example_form =
     \<lparr>schema = Some firstNameSchema, initialValues = example_initialValues,
      onSubmit = (\<lambda>data. data),
      children = [TextField firstName_field, SelectField department_field,
                  SubmitButton register_button],
      form_className = Some ''space-y-6''\<rparr>"

definition empty_store :: store where
  "empty_store =
     \<lparr>next_ref = 0,
      objs = (\<lambda>r. createFormControl \<lparr>defaultValues = Map.empty, resolver = None\<rparr>)\<rparr>"

text \<open>
  Two snapshots of the example form: as created, and after the department was changed and
  a submission was rejected (the first name is still empty).
\<close>

definition pristine_form :: form where
  "pristine_form =
     createFormControl
       \<lparr>defaultValues = example_initialValues, resolver = Some firstNameSchema\<rparr>"

definition rejected_form :: form where
  "rejected_form =
     fst (handleSubmit (\<lambda>data. data) (setValue ''department'' (JStr ''sales'') pristine_form))"

text \<open>
  A run of the example form: it is mounted in the empty store, the user types a first name
  of one letter and submits, and the form renders again.
\<close>

definition example_mount :: "form_ref \<times> store \<times> GenericFormRef \<times> markup" where
  "example_mount = GenericForm example_form None empty_store"

definition typed_store :: store where
  "typed_store =
     run example_form 0 [UserChange ''firstName'' (JStr ''A'')] (fst (snd example_mount))"

definition submitted :: "store \<times> formvalues option" where
  "submitted = form_onSubmit example_form 0 typed_store"

definition example_rerender :: "form_ref \<times> store \<times> GenericFormRef \<times> markup" where
  "example_rerender = GenericForm example_form (Some 0) (fst submitted)"

section \<open>Markup of the field components\<close>

lemma find_tag_when_str:
  "(\<And>l. concat (map (find_tag t) (f l)) = []) \<Longrightarrow> concat (map (find_tag t) (when_str x f)) = []"
  by (cases x) (simp_all add: when_str_def)

lemma find_tag_error_text:
  "concat (map (find_tag t) (case e of None \<Rightarrow> [] | Some m \<Rightarrow> [Txt m])) = []"
  by (cases e) simp_all

lemma find_tag_map_none:
  "(\<And>x. find_tag t (g x) = []) \<Longrightarrow> concat (map (find_tag t \<circ> g) xs) = []"
  by (induction xs) simp_all

lemma find_tag_map_all:
  "(\<And>x. find_tag t (g x) = [g x]) \<Longrightarrow> concat (map (find_tag t \<circ> g) xs) = map g xs"
  by (induction xs) simp_all

lemma TextField_input:
  "first_tag ''Input'' (TextField p ctx) =
     Some (El ''Input''
       (spread_field \<lparr>field_onChange = OnChange (name p), field_onBlur = OnBlur (name p),
          field_value = get (ctl_formValues ctx) (name p), field_name = name p\<rparr>
        @ [(''type'', PString (input_type_str (dflt TText (input_type p)))),
           (''placeholder'', PString (dflt ''Enter value'' (placeholder p))),
           (''className'', PString (''w-full '' @ template_str (inputClass p) @ '' ''
                                         @ (if action p \<noteq> None then ''pr-12'' else []))),
           (''id'', PString (name p)),
           (''disabled'', PBool (dflt False (disabled p)))]) [])"
  by (simp add: first_tag_def TextField_def FormField_def Let_def when_true_def find_tag_when_str)

lemma TextField_value:
  "map_option (prop_of ''value'') (first_tag ''Input'' (TextField p ctx)) = Some (PValue (get (ctl_formValues ctx) (name p)))"
  by (simp add: TextField_input spread_field_def props_get_def)

lemma TextField_message:
  "last_tag ''FormMessage'' (TextField p ctx) =
     Some (FormMessage \<lparr>fc_name = name p, fc_error = errors (ctl_formState ctx) (name p)\<rparr> [(''className'', PString ''line-clamp-1 text-xs'')])"
  by (simp add: last_tag_def TextField_def FormField_def Let_def FormMessage_def find_tag_error_text)

lemma SelectField_select_value:
  "map_option (prop_of ''value'') (first_tag ''Select'' (SelectField p ctx)) = Some (PValue (get (ctl_formValues ctx) (name p)))"
  by (simp add: first_tag_def SelectField_def FormField_def Let_def when_true_def props_get_def find_tag_when_str)

lemma SelectField_message:
  "last_tag ''FormMessage'' (SelectField p ctx) =
     Some (FormMessage \<lparr>fc_name = name p, fc_error = errors (ctl_formState ctx) (name p)\<rparr> [])"
  by (simp add: last_tag_def SelectField_def FormField_def Let_def FormMessage_def find_tag_error_text find_tag_map_none find_tag_when_str when_true_def)

lemma CheckboxField_checked:
  "map_option (prop_of ''checked'') (first_tag ''Checkbox'' (CheckboxField p ctx)) = Some (PValue (get (ctl_formValues ctx) (name p)))"
  by (simp add: first_tag_def CheckboxField_def FormField_def Let_def when_true_def props_get_def find_tag_when_str)

lemma CheckboxField_message:
  "last_tag ''FormMessage'' (CheckboxField p ctx) =
     Some (FormMessage \<lparr>fc_name = name p, fc_error = errors (ctl_formState ctx) (name p)\<rparr> [])"
  by (simp add: last_tag_def CheckboxField_def FormField_def Let_def FormMessage_def find_tag_error_text find_tag_when_str when_true_def)

lemma SelectField_items:
  "find_tag ''SelectItem'' (SelectField p ctx) =
     map (\<lambda>option. El ''SelectItem''
                                [(''key'', PString (so_value option)),
                                 (''value'', PString (so_value option)),
                                 (''disabled'', bool_or_undefined (so_disabled option))]
                                [Txt (so_text option)]) (options p)"
  by (simp add: SelectField_def FormField_def Let_def FormMessage_def when_true_def find_tag_error_text find_tag_map_all find_tag_when_str)

lemma TextField_message_text:
  "message_text (TextField p ctx)
     = (case errors (ctl_formState ctx) (name p) of None \<Rightarrow> [] | Some m \<Rightarrow> [m])"
  by (simp add: message_text_def TextField_message FormMessage_def split: option.splits)

lemma SelectField_message_text:
  "message_text (SelectField p ctx)
     = (case errors (ctl_formState ctx) (name p) of None \<Rightarrow> [] | Some m \<Rightarrow> [m])"
  by (simp add: message_text_def SelectField_message FormMessage_def split: option.splits)

lemma CheckboxField_message_text:
  "message_text (CheckboxField p ctx)
     = (case errors (ctl_formState ctx) (name p) of None \<Rightarrow> [] | Some m \<Rightarrow> [m])"
  by (simp add: message_text_def CheckboxField_message FormMessage_def split: option.splits)

lemma SelectField_spans:
  "find_tag ''span'' (SelectField s ctx) =
     when_str (label s) (\<lambda>l.
       El ''span'' [] [Txt l]
       # when_true (dflt False (required s))
           [El ''span'' [(''className'', PString ''ml-1 text-red-500'')] [Txt ''*'']])"
  by (cases "label s")
     (simp_all add: SelectField_def FormField_def Let_def FormMessage_def when_true_def
        when_str_def find_tag_error_text find_tag_map_none)

lemma CheckboxField_spans:
  "find_tag ''span'' (CheckboxField c ctx) =
     when_str (label c) (\<lambda>l.
       when_true (truthy_bool (required c))
         [El ''span'' [(''className'', PString ''text-destructive ml-1'')] [Txt ''*'']])"
  by (cases "label c")
     (simp_all add: CheckboxField_def FormField_def Let_def FormMessage_def when_true_def
        when_str_def find_tag_error_text)

section \<open>Renders and steps of GenericForm\<close>

lemma GenericForm_ref:
  "fst (GenericForm p hook s) = (case hook of None \<Rightarrow> next_ref s | Some r \<Rightarrow> r)"
  by (simp add: GenericForm_def useForm_def Let_def split: option.splits)


lemma GenericForm_markup:
  "snd (snd (snd (GenericForm p hook s))) =
     (let form = fst (GenericForm p hook s); s' = fst (snd (GenericForm p hook s)) in
          El ''Form'' []
            [El ''form''
               [(''onSubmit'', PHandler HandleSubmit),
                (''className'', str_or_undefined (form_className p))]
               (map (\<lambda>child. child (objs s' form)) (children p))])"
  by (simp add: GenericForm_def Let_def split: prod.splits)

lemma GenericForm_mount_form:
  "objs (fst (snd (GenericForm p None s))) (fst (GenericForm p None s)) =
     createFormControl \<lparr>defaultValues = initialValues p,
                resolver = (case schema p of None \<Rightarrow> None | Some sc \<Rightarrow> Some (zodResolver sc))\<rparr>"
  by (simp add: GenericForm_def useForm_def Let_def)

lemma GenericForm_rerender_form:
  "objs (fst (snd (GenericForm p (Some r) s))) r =
     (objs s r)\<lparr>ctl_resolver := (case schema p of None \<Rightarrow> None | Some sc \<Rightarrow> Some (zodResolver sc))\<rparr>"
  by (simp add: GenericForm_def useForm_def Let_def update_form_def)

lemma GenericForm_resolver:
  "ctl_resolver (objs (fst (snd (GenericForm p hook s))) (fst (GenericForm p hook s)))
     = (case schema p of None \<Rightarrow> None | Some sc \<Rightarrow> Some (zodResolver sc))"
  by (cases hook) (simp_all add: GenericForm_def useForm_def Let_def update_form_def createFormControl_def)

lemma step_resolver:
  "ctl_resolver (objs s r) = (case schema p of None \<Rightarrow> None | Some sc \<Rightarrow> Some (zodResolver sc))
   \<Longrightarrow> ctl_resolver (objs (step p r a s) r) = ctl_resolver (objs s r)"
  by (cases a)
     (auto simp: field_onChange_fire_def form_onSubmit_def ref_setValue_def ref_reset_def
        update_form_def setValue_def reset_def handleSubmit_def GenericForm_rerender_form
        split: option.splits sum.splits prod.splits)

lemma run_resolver:
  "ctl_resolver (objs s r) = (case schema p of None \<Rightarrow> None | Some sc \<Rightarrow> Some (zodResolver sc))
   \<Longrightarrow> ctl_resolver (objs (run p r as s) r) = ctl_resolver (objs s r)"
  by (induction as arbitrary: s) (simp_all add: step_resolver)




lemma form_onSubmit_result:
  "snd (form_onSubmit p form s) =
     (case ctl_resolver (objs s form) of
        None \<Rightarrow> Some (onSubmit p (ref_getValues form s))
      | Some r \<Rightarrow>
          (case r (ref_getValues form s) of
             Inl errs \<Rightarrow> None
           | Inr data \<Rightarrow> Some (onSubmit p data)))"
  by (simp add: form_onSubmit_def handleSubmit_def ref_getValues_def getValues_def
        split: option.splits sum.splits prod.splits)

lemma form_onSubmit_errors:
  "errors (ctl_formState (objs (fst (form_onSubmit p form s)) form)) =
     (case ctl_resolver (objs s form) of
        None \<Rightarrow> Map.empty
      | Some r \<Rightarrow>
          (case r (ref_getValues form s) of Inl errs \<Rightarrow> errs | Inr data \<Rightarrow> Map.empty))"
  by (simp add: form_onSubmit_def handleSubmit_def ref_getValues_def getValues_def
        split: option.splits sum.splits prod.splits)

lemma run_installed_resolver:
  assumes "GenericForm p hook s = (form, s', handle, m)"
  shows "ctl_resolver (objs (run p form acts s') form)
           = (case schema p of None \<Rightarrow> None | Some sc \<Rightarrow> Some (zodResolver sc))"
proof -
  have f: "form = fst (GenericForm p hook s)" and s': "s' = fst (snd (GenericForm p hook s))"
    using assms by simp_all
  have r: "ctl_resolver (objs s' form)
             = (case schema p of None \<Rightarrow> None | Some sc \<Rightarrow> Some (zodResolver sc))"
    unfolding f s' by (rule GenericForm_resolver)
  show ?thesis
    using run_resolver [OF r, of acts] r by simp
qed

lemma keys_differ:
  "{''getValues'', ''reset'', ''setValue'', ''formState'', ''control'', ''form''}
     \<noteq> {''getValues'', ''reset'', ''setValue'', ''formState''}"
proof
  assume "{''getValues'', ''reset'', ''setValue'', ''formState'', ''control'', ''form''}
            = {''getValues'', ''reset'', ''setValue'', ''formState''}"
  then have "''form'' \<in> {''getValues'', ''reset'', ''setValue'', ''formState''}"
    by (rule subst)
       (rule insertI2, rule insertI2, rule insertI2, rule insertI2, rule insertI2,
        rule insertI1)
  then show False by simp
qed

text \<open>The example run, evaluated.\<close>

lemma example_mount_ref:
  "fst example_mount = 0"
  by (simp add: example_mount_def GenericForm_ref empty_store_def)

lemma example_mount_eq:
  "GenericForm example_form None empty_store
     = (0, fst (snd example_mount), fst (snd (snd example_mount)), snd (snd (snd example_mount)))"
  by (metis example_mount_ref example_mount_def prod.collapse)

lemma example_mounted_form:
  "objs (fst (snd example_mount)) 0 = pristine_form"
proof -
  have "objs (fst (snd example_mount)) (fst example_mount)
          = createFormControl
              \<lparr>defaultValues = initialValues example_form,
               resolver = (case schema example_form of
                             None \<Rightarrow> None | Some sc \<Rightarrow> Some (zodResolver sc))\<rparr>"
    unfolding example_mount_def by (rule GenericForm_mount_form)
  then show ?thesis
    by (simp add: example_mount_ref pristine_form_def example_form_def zodResolver_def)
qed

lemma typed_store_form:
  "objs typed_store 0 = setValue ''firstName'' (JStr ''A'') pristine_form"
  by (simp add: typed_store_def field_onChange_fire_def update_form_def example_mounted_form)


section \<open>The claims\<close>

text \<open>
  C1. For every field component bound to a field path, the rendered field value (the value
  of TextField's input, of SelectField's select, the checked state of CheckboxField's
  checkbox) is a function of the form-state snapshot at that path only: two renders whose
  snapshots hold the same value at the path \<open>n\<close> show the same value, whatever the other
  props of the components and the rest of the two snapshots are; the value shown is the
  one the snapshot holds at the path.
\<close>

theorem rendered_value_pure:
  assumes "get (ctl_formValues ctx) n = get (ctl_formValues ctx') n"
  shows "shown ''Input'' ''value'' (TextField (t\<lparr>name := n\<rparr>) ctx)
           = shown ''Input'' ''value'' (TextField (t'\<lparr>name := n\<rparr>) ctx')
       \<and> shown ''Select'' ''value'' (SelectField (s\<lparr>name := n\<rparr>) ctx)
           = shown ''Select'' ''value'' (SelectField (s'\<lparr>name := n\<rparr>) ctx')
       \<and> shown ''Checkbox'' ''checked'' (CheckboxField (c\<lparr>name := n\<rparr>) ctx)
           = shown ''Checkbox'' ''checked'' (CheckboxField (c'\<lparr>name := n\<rparr>) ctx')
       \<and> shown ''Input'' ''value'' (TextField (t\<lparr>name := n\<rparr>) ctx)
           = Some (PValue (get (ctl_formValues ctx) n))"
  using assms
  by (simp add: shown_def TextField_value SelectField_select_value CheckboxField_checked)

theorem rendered_value_pure_witness:
  "get (ctl_formValues pristine_form) ''firstName''
     = get (ctl_formValues rejected_form) ''firstName''
   \<and> ctl_formValues pristine_form \<noteq> ctl_formValues rejected_form
   \<and> shown ''Input'' ''value''
         (TextField (firstName_field\<lparr>name := ''firstName''\<rparr>) pristine_form)
       = shown ''Input'' ''value''
           (TextField (firstName_field\<lparr>label := None, disabled := Some True,
                                       name := ''firstName''\<rparr>) rejected_form)"
proof -
  have h: "get (ctl_formValues pristine_form) ''firstName''
             = get (ctl_formValues rejected_form) ''firstName''"
    by (simp add: get_def pristine_form_def rejected_form_def createFormControl_def
          handleSubmit_def setValue_def example_initialValues_def firstNameSchema_def)
  have "ctl_formValues pristine_form ''department'' \<noteq> ctl_formValues rejected_form ''department''"
    by (simp add: pristine_form_def rejected_form_def createFormControl_def
          handleSubmit_def setValue_def example_initialValues_def firstNameSchema_def)
  then have d: "ctl_formValues pristine_form \<noteq> ctl_formValues rejected_form"
    by auto
  have "shown ''Input'' ''value''
         (TextField (firstName_field\<lparr>name := ''firstName''\<rparr>) pristine_form)
       = shown ''Input'' ''value''
           (TextField (firstName_field\<lparr>label := None, disabled := Some True,
                                       name := ''firstName''\<rparr>) rejected_form)"
    by (rule conjunct1 [OF rendered_value_pure [OF h]])
  with h d show ?thesis by blast
qed

text \<open>
  C2 (as amended). GenericForm forwards its initialValues prop, as the default values, and
  its schema prop, wrapped by the resolver adapter when there is one, to the form-state
  hook. The handle it exposes through the ref provides the operations get the current
  values, reset the form, set a single field's value and read the form state of the
  render, and besides them the control object and the whole form object of the hook.
\<close>

theorem handle_members:
  "(case GenericForm p hook s of (form, s', handle, m) \<Rightarrow>
      (form, s')
        = useForm
            \<lparr>defaultValues = initialValues p,
             resolver = (case schema p of None \<Rightarrow> None | Some sc \<Rightarrow> Some (zodResolver sc))\<rparr>
            hook s
      \<and> map fst handle
          = [''getValues'', ''reset'', ''setValue'', ''formState'', ''control'', ''form'']
      \<and> member handle ''getValues'' = Some (GetValuesFn (ref_getValues form))
      \<and> member handle ''reset'' = Some (ResetFn (ref_reset form))
      \<and> member handle ''setValue'' = Some (SetValueFn (ref_setValue form))
      \<and> member handle ''formState'' = Some (FormStateVal (ctl_formState (objs s' form)))
      \<and> member handle ''control'' = Some (ControlObj form)
      \<and> member handle ''form'' = Some (FormObj form))"
  by (simp add: GenericForm_def Let_def member_def split: prod.splits)

text \<open>
  C2 as first stated, with the handle providing exactly the four operations, fails: the
  handle of the example form, once mounted, has the members \<open>control\<close> and \<open>form\<close> as
  well.
\<close>

theorem handle_members_counterexample:
  "set (map fst (fst (snd (snd example_mount))))
     \<noteq> {''getValues'', ''reset'', ''setValue'', ''formState''}
   \<and> member (fst (snd (snd example_mount))) ''control'' = Some (ControlObj 0)
   \<and> member (fst (snd (snd example_mount))) ''form'' = Some (FormObj 0)"
  using keys_differ
  by (simp add: example_mount_def GenericForm_def Let_def member_def useForm_def
        empty_store_def split: prod.splits)

text \<open>
  C3 (as amended). The text, select and checkbox components read the value and the
  validation error of their field from the shared form context; their disabled flag comes
  from their own props. The submit button reads nothing from the form context: its markup
  is the same under every context and follows its own props. All four render markup with
  conditional styling: the text input's class depends on the presence of an action, the
  select and the checkbox mark a required field with a styled asterisk, and the button's
  class depends on its width.
\<close>

theorem leaf_components_state_source:
  "shown ''Input'' ''value'' (TextField t ctx)
     = Some (PValue (get (ctl_formValues ctx) (name t)))
   \<and> shown ''Select'' ''value'' (SelectField s ctx)
       = Some (PValue (get (ctl_formValues ctx) (name s)))
   \<and> shown ''Checkbox'' ''checked'' (CheckboxField c ctx)
       = Some (PValue (get (ctl_formValues ctx) (name c)))
   \<and> message_text (TextField t ctx)
       = (case errors (ctl_formState ctx) (name t) of None \<Rightarrow> [] | Some m \<Rightarrow> [m])
   \<and> message_text (SelectField s ctx)
       = (case errors (ctl_formState ctx) (name s) of None \<Rightarrow> [] | Some m \<Rightarrow> [m])
   \<and> message_text (CheckboxField c ctx)
       = (case errors (ctl_formState ctx) (name c) of None \<Rightarrow> [] | Some m \<Rightarrow> [m])
   \<and> shown ''Input'' ''disabled'' (TextField t ctx) = Some (PBool (dflt False (disabled t)))
   \<and> shown ''Select'' ''disabled'' (SelectField s ctx) = Some (PBool (dflt False (disabled s)))
   \<and> shown ''Checkbox'' ''disabled'' (CheckboxField c ctx)
       = Some (bool_or_undefined (disabled c))
   \<and> SubmitButton b ctx = SubmitButton b ctx'
   \<and> shown ''Input'' ''className'' (TextField t ctx)
       = Some (PString (''w-full '' @ template_str (inputClass t) @ '' ''
                        @ (if action t = None then [] else ''pr-12'')))
   \<and> find_tag ''span'' (SelectField s ctx)
       = when_str (label s) (\<lambda>l.
           El ''span'' [] [Txt l]
           # when_true (dflt False (required s))
               [El ''span'' [(''className'', PString ''ml-1 text-red-500'')] [Txt ''*'']])
   \<and> find_tag ''span'' (CheckboxField c ctx)
       = when_str (label c) (\<lambda>l.
           when_true (truthy_bool (required c))
             [El ''span'' [(''className'', PString ''text-destructive ml-1'')] [Txt ''*'']])
   \<and> prop_of ''className'' (SubmitButton b ctx)
       = PCn [Some ''transition-all duration-200'',
              Some (if dflt Full (sb_width b) = Full then ''w-full'' else ''w-auto''),
              sb_className b]"
proof -
  have v: "shown ''Input'' ''value'' (TextField t ctx)
             = Some (PValue (get (ctl_formValues ctx) (name t)))"
    "shown ''Select'' ''value'' (SelectField s ctx)
       = Some (PValue (get (ctl_formValues ctx) (name s)))"
    "shown ''Checkbox'' ''checked'' (CheckboxField c ctx)
       = Some (PValue (get (ctl_formValues ctx) (name c)))"
    by (simp_all add: shown_def TextField_value SelectField_select_value CheckboxField_checked)
  have d: "shown ''Input'' ''disabled'' (TextField t ctx) = Some (PBool (dflt False (disabled t)))"
    "shown ''Input'' ''className'' (TextField t ctx)
       = Some (PString (''w-full '' @ template_str (inputClass t) @ '' ''
                        @ (if action t = None then [] else ''pr-12'')))"
    by (simp_all add: shown_def TextField_input props_get_def spread_field_def)
  have e: "shown ''Select'' ''disabled'' (SelectField s ctx)
             = Some (PBool (dflt False (disabled s)))"
    by (simp add: shown_def first_tag_def SelectField_def FormField_def Let_def props_get_def
          find_tag_when_str when_true_def)
  have f: "shown ''Checkbox'' ''disabled'' (CheckboxField c ctx)
             = Some (bool_or_undefined (disabled c))"
    by (simp add: shown_def first_tag_def CheckboxField_def FormField_def Let_def props_get_def)
  have g: "SubmitButton b ctx = SubmitButton b ctx'"
    "prop_of ''className'' (SubmitButton b ctx)
       = PCn [Some ''transition-all duration-200'',
              Some (if dflt Full (sb_width b) = Full then ''w-full'' else ''w-auto''),
              sb_className b]"
    by (simp_all add: SubmitButton_def Let_def props_get_def)
  show ?thesis
    using v d e f g
    by (simp only: TextField_message_text SelectField_message_text CheckboxField_message_text
          SelectField_spans CheckboxField_spans simp_thms)
qed

text \<open>
  C3 as first stated, with all four components reading their state from the form context
  rather than from their props, fails. Under two snapshots that differ in values and in
  form state the submit button of the example is the same markup, with the label of its
  props, and it changes with its \<open>isLoading\<close> prop, whereas the select of the example
  does differ between the two snapshots. The disabled state of a text field, too, follows
  its \<open>disabled\<close> prop under one and the same snapshot.
\<close>

theorem submit_button_ignores_context:
  "ctl_formValues pristine_form \<noteq> ctl_formValues rejected_form
   \<and> ctl_formState pristine_form \<noteq> ctl_formState rejected_form
   \<and> SubmitButton register_button pristine_form = SubmitButton register_button rejected_form
   \<and> texts (SubmitButton register_button rejected_form) = [''Register User'']
   \<and> texts (SubmitButton (register_button\<lparr>sb_isLoading := Some True\<rparr>) rejected_form)
       = [''Creating Account...'']
   \<and> SelectField department_field pristine_form \<noteq> SelectField department_field rejected_form
   \<and> shown ''Input'' ''disabled'' (TextField firstName_field pristine_form)
       = Some (PBool False)
   \<and> shown ''Input'' ''disabled''
         (TextField (firstName_field\<lparr>disabled := Some True\<rparr>) pristine_form)
       = Some (PBool True)"
proof -
  have a: "ctl_formValues pristine_form ''department'' = Some (JStr ''engineering'')"
    "ctl_formValues rejected_form ''department'' = Some (JStr ''sales'')"
    by (simp_all add: pristine_form_def rejected_form_def createFormControl_def handleSubmit_def
          setValue_def example_initialValues_def firstNameSchema_def)
  then have v: "ctl_formValues pristine_form \<noteq> ctl_formValues rejected_form"
    by auto
  have "isSubmitted (ctl_formState pristine_form) \<noteq> isSubmitted (ctl_formState rejected_form)"
    by (simp add: pristine_form_def rejected_form_def createFormControl_def handleSubmit_def
          setValue_def example_initialValues_def firstNameSchema_def)
  then have st: "ctl_formState pristine_form \<noteq> ctl_formState rejected_form"
    by auto
  have b: "SubmitButton register_button pristine_form = SubmitButton register_button rejected_form"
    by (simp add: SubmitButton_def)
  have t: "texts (SubmitButton register_button rejected_form) = [''Register User'']"
    "texts (SubmitButton (register_button\<lparr>sb_isLoading := Some True\<rparr>) rejected_form)
       = [''Creating Account...'']"
    by (simp_all add: SubmitButton_def register_button_def dflt_def Let_def)
  have "shown ''Select'' ''value'' (SelectField department_field pristine_form)
          \<noteq> shown ''Select'' ''value'' (SelectField department_field rejected_form)"
    using a by (simp add: shown_def SelectField_select_value department_field_def get_def)
  then have s: "SelectField department_field pristine_form
                  \<noteq> SelectField department_field rejected_form"
    by auto
  have d: "shown ''Input'' ''disabled'' (TextField firstName_field pristine_form)
             = Some (PBool False)"
    "shown ''Input'' ''disabled''
       (TextField (firstName_field\<lparr>disabled := Some True\<rparr>) pristine_form)
     = Some (PBool True)"
    by (simp_all add: shown_def TextField_input props_get_def spread_field_def
          firstName_field_def dflt_def)
  from v st b t s d show ?thesis by simp
qed




text \<open>
  C5. On form submission the onSubmit handler is invoked only when the supplied schema
  accepts the candidate value object, and it is invoked with the validated data; when the
  schema rejects, onSubmit is not called. The form element carries the submit handler of
  the state manager, and in every state the form reaches after a render with the schema,
  the result of a submission is the call of onSubmit on the accepted data, or no call.
\<close>

theorem submit_validated:
  assumes "GenericForm p hook s = (form, s', handle, m)"
      and "schema p = Some sc"
  shows "shown ''form'' ''onSubmit'' m = Some (PHandler HandleSubmit)
       \<and> snd (form_onSubmit p form (run p form acts s'))
           = (case sc (ref_getValues form (run p form acts s')) of
                Inl errs \<Rightarrow> None
              | Inr data \<Rightarrow> Some (onSubmit p data))"
proof -
  have m: "m = snd (snd (snd (GenericForm p hook s)))"
    using assms(1) by simp
  have "shown ''form'' ''onSubmit'' m = Some (PHandler HandleSubmit)"
    unfolding m by (simp add: GenericForm_markup Let_def shown_def first_tag_def props_get_def)
  moreover have "ctl_resolver (objs (run p form acts s') form) = Some sc"
    using run_installed_resolver [OF assms(1), of acts] assms(2) by (simp add: zodResolver_def)
  ultimately show ?thesis
    by (simp add: form_onSubmit_result)
qed

theorem submit_validated_witness:
  "snd (form_onSubmit example_form 0
          (run example_form 0 [UserChange ''firstName'' (JStr ''Ada'')] (fst (snd example_mount))))
     = Some (example_initialValues(''firstName'' \<mapsto> JStr ''Ada''))
   \<and> snd (form_onSubmit example_form 0 (run example_form 0 [] (fst (snd example_mount))))
       = None"
proof -
  have sc: "schema example_form = Some firstNameSchema"
    by (simp add: example_form_def)
  have v: "ref_getValues 0 (fst (snd example_mount)) = example_initialValues"
    by (simp add: ref_getValues_def getValues_def example_mounted_form pristine_form_def
          createFormControl_def)
  have a: "snd (form_onSubmit example_form 0
             (run example_form 0 [UserChange ''firstName'' (JStr ''Ada'')]
                (fst (snd example_mount))))
           = Some (example_initialValues(''firstName'' \<mapsto> JStr ''Ada''))"
    using conjunct2 [OF submit_validated [OF example_mount_eq sc,
                       of "[UserChange ''firstName'' (JStr ''Ada'')]"]] v
    by (simp add: ref_getValues_def getValues_def field_onChange_fire_def update_form_def
          setValue_def firstNameSchema_def example_form_def)
  have b: "snd (form_onSubmit example_form 0 (run example_form 0 [] (fst (snd example_mount))))
           = None"
    using conjunct2 [OF submit_validated [OF example_mount_eq sc, of "[]"]] v
    by (simp add: firstNameSchema_def example_initialValues_def)
  from a b show ?thesis by simp
qed


text \<open>
  C6. When the schema rejects an input, validation produces a set of path-keyed error
  messages, never both an accepted value and errors: a submission either stores the
  schema's errors and does not call onSubmit, or calls onSubmit with the accepted data and
  leaves no errors. At the next render the children are rendered from that state, and the
  field component bound to a rejected path renders that path's validation error text in
  its message slot.
\<close>

theorem rejected_shows_error:
  assumes "GenericForm p hook s = (form, s', handle, m)"
      and "schema p = Some sc"
      and "s2 = run p form acts s'"
      and "form_onSubmit p form s2 = (s3, res)"
      and "GenericForm p (Some form) s3 = (form', s4, handle', m')"
  shows "(case sc (ref_getValues form s2) of
            Inl errs \<Rightarrow> res = None \<and> errors (ctl_formState (objs s4 form)) = errs
          | Inr data \<Rightarrow> res = Some (onSubmit p data)
                         \<and> errors (ctl_formState (objs s4 form)) = Map.empty)
       \<and> m' = El ''Form'' []
                 [El ''form''
                    [(''onSubmit'', PHandler HandleSubmit),
                     (''className'', str_or_undefined (form_className p))]
                    (map (\<lambda>child. child (objs s4 form)) (children p))]
       \<and> (\<forall>errs msg. sc (ref_getValues form s2) = Inl errs \<and> errs n = Some msg \<longrightarrow>
             message_text (TextField (t\<lparr>name := n\<rparr>) (objs s4 form)) = [msg]
           \<and> message_text (SelectField (sl\<lparr>name := n\<rparr>) (objs s4 form)) = [msg]
           \<and> message_text (CheckboxField (c\<lparr>name := n\<rparr>) (objs s4 form)) = [msg])"
proof -
  have res: "res = snd (form_onSubmit p form s2)" and s3: "s3 = fst (form_onSubmit p form s2)"
    using assms(4) by simp_all
  have s4: "s4 = fst (snd (GenericForm p (Some form) s3))"
    and m': "m' = snd (snd (snd (GenericForm p (Some form) s3)))"
    using assms(5) by simp_all
  have rs: "ctl_resolver (objs s2 form) = Some sc"
    unfolding assms(3)
    using run_installed_resolver [OF assms(1), of acts] assms(2) by (simp add: zodResolver_def)
  have e4: "errors (ctl_formState (objs s4 form)) = errors (ctl_formState (objs s3 form))"
    unfolding s4 by (simp add: GenericForm_rerender_form)
  have e3: "errors (ctl_formState (objs s3 form))
              = (case sc (ref_getValues form s2) of Inl errs \<Rightarrow> errs | Inr data \<Rightarrow> Map.empty)"
    unfolding s3 by (simp add: form_onSubmit_errors rs)
  have r: "res = (case sc (ref_getValues form s2) of
                    Inl errs \<Rightarrow> None | Inr data \<Rightarrow> Some (onSubmit p data))"
    unfolding res by (simp add: form_onSubmit_result rs)
  have a: "(case sc (ref_getValues form s2) of
            Inl errs \<Rightarrow> res = None \<and> errors (ctl_formState (objs s4 form)) = errs
          | Inr data \<Rightarrow> res = Some (onSubmit p data)
                         \<and> errors (ctl_formState (objs s4 form)) = Map.empty)"
    using r e3 e4 by (simp split: sum.splits)
  have b: "m' = El ''Form'' []
                 [El ''form''
                    [(''onSubmit'', PHandler HandleSubmit),
                     (''className'', str_or_undefined (form_className p))]
                    (map (\<lambda>child. child (objs s4 form)) (children p))]"
    unfolding m' s4 using GenericForm_ref [of p "Some form" s3]
    by (simp add: GenericForm_markup Let_def)
  have c: "\<forall>errs msg. sc (ref_getValues form s2) = Inl errs \<and> errs n = Some msg \<longrightarrow>
             message_text (TextField (t\<lparr>name := n\<rparr>) (objs s4 form)) = [msg]
           \<and> message_text (SelectField (sl\<lparr>name := n\<rparr>) (objs s4 form)) = [msg]
           \<and> message_text (CheckboxField (c\<lparr>name := n\<rparr>) (objs s4 form)) = [msg]"
    using e3 e4
    by (simp add: TextField_message_text SelectField_message_text CheckboxField_message_text)
  from a b c show ?thesis by blast
qed

theorem rejected_shows_error_witness:
  "snd submitted = None
   \<and> message_text
         (TextField (firstName_field\<lparr>name := ''firstName''\<rparr>)
            (objs (fst (snd example_rerender)) 0))
       = [''First name must be at least 2 characters'']"
proof -
  have sc: "schema example_form = Some firstNameSchema"
    by (simp add: example_form_def)
  have s2: "typed_store
              = run example_form 0 [UserChange ''firstName'' (JStr ''A'')] (fst (snd example_mount))"
    by (simp add: typed_store_def)
  have s3: "form_onSubmit example_form 0 typed_store = (fst submitted, snd submitted)"
    by (simp add: submitted_def)
  have s4: "GenericForm example_form (Some 0) (fst submitted)
              = (fst example_rerender, fst (snd example_rerender),
                 fst (snd (snd example_rerender)), snd (snd (snd example_rerender)))"
    by (simp add: example_rerender_def)
  have rej: "firstNameSchema (ref_getValues 0 typed_store)
               = Inl [''firstName'' \<mapsto> ''First name must be at least 2 characters'']"
    by (simp add: ref_getValues_def getValues_def typed_store_form setValue_def
          firstNameSchema_def)
  note w = rejected_shows_error [OF example_mount_eq sc s2 s3 s4,
             where n = "''firstName''" and t = firstName_field]
  have "snd submitted = None"
    using conjunct1 [OF w] rej by simp
  moreover have "message_text
         (TextField (firstName_field\<lparr>name := ''firstName''\<rparr>)
            (objs (fst (snd example_rerender)) 0))
       = [''First name must be at least 2 characters'']"
    using conjunct2 [OF conjunct2 [OF w]] rej by simp
  ultimately show ?thesis by simp
qed




text \<open>
  C8. The schema prop of GenericForm is optional: when no schema is supplied, no validation
  resolver is installed, and in every state the form reaches a submission invokes onSubmit
  with the current form values, without any schema validation.
\<close>

theorem no_schema_no_validation:
  assumes "GenericForm p hook s = (form, s', handle, m)"
      and "schema p = None"
  shows "ctl_resolver (objs s' form) = None
       \<and> snd (form_onSubmit p form (run p form acts s'))
           = Some (onSubmit p (ref_getValues form (run p form acts s')))"
proof -
  have "ctl_resolver (objs (run p form [] s') form) = None"
    using run_installed_resolver [OF assms(1), of "[]"] assms(2) by simp
  moreover have "ctl_resolver (objs (run p form acts s') form) = None"
    using run_installed_resolver [OF assms(1), of acts] assms(2) by simp
  ultimately show ?thesis
    by (simp add: form_onSubmit_result)
qed

theorem no_schema_no_validation_witness:
  "snd (form_onSubmit (example_form\<lparr>schema := None\<rparr>) 0
          (run (example_form\<lparr>schema := None\<rparr>) 0 []
             (fst (snd (GenericForm (example_form\<lparr>schema := None\<rparr>) None empty_store)))))
     = Some example_initialValues"
proof -
  have r: "fst (GenericForm (example_form\<lparr>schema := None\<rparr>) None empty_store) = 0"
    by (simp add: GenericForm_ref empty_store_def)
  have m: "GenericForm (example_form\<lparr>schema := None\<rparr>) None empty_store
             = (0, fst (snd (GenericForm (example_form\<lparr>schema := None\<rparr>) None empty_store)),
                fst (snd (snd (GenericForm (example_form\<lparr>schema := None\<rparr>) None empty_store))),
                snd (snd (snd (GenericForm (example_form\<lparr>schema := None\<rparr>) None empty_store))))"
    by (metis r prod.collapse)
  have sc: "schema (example_form\<lparr>schema := None\<rparr>) = None"
    by simp
  have v: "ref_getValues 0
             (fst (snd (GenericForm (example_form\<lparr>schema := None\<rparr>) None empty_store)))
           = example_initialValues"
    using GenericForm_mount_form [of "example_form\<lparr>schema := None\<rparr>" empty_store] r
    by (simp add: ref_getValues_def getValues_def createFormControl_def example_form_def)
  show ?thesis
    using conjunct2 [OF no_schema_no_validation [OF m sc, of "[]"]] v
    by (simp add: example_form_def)
qed

text \<open>
  C9. SubmitButton renders a button of type submit; the button is disabled exactly when
  isLoading is true or the disabled prop is true (both default to false); its visible
  text is loadingLabel (default "Submitting...") when isLoading is true and label
  (default "Submit") otherwise.
\<close>

theorem SubmitButton_render:
  "(\<exists>ps cs. SubmitButton p ctx = El ''Button'' ps cs)
   \<and> prop_of ''type'' (SubmitButton p ctx) = PString ''submit''
   \<and> prop_of ''disabled'' (SubmitButton p ctx)
       = PBool (sb_isLoading p = Some True \<or> sb_disabled p = Some True)
   \<and> texts (SubmitButton p ctx)
       = [if sb_isLoading p = Some True
          then (case sb_loadingLabel p of None \<Rightarrow> ''Submitting...'' | Some l \<Rightarrow> l)
          else (case sb_label p of None \<Rightarrow> ''Submit'' | Some l \<Rightarrow> l)]"
  by (auto simp: SubmitButton_def Let_def dflt_def props_get_def split: option.splits)

text \<open>
  C10. SelectField renders exactly one selectable item per element of its options array,
  in the order of the array, each carrying that option's value, display text and disabled
  flag.
\<close>

theorem select_items:
  "find_tag ''SelectItem'' (SelectField p ctx) =
     map (\<lambda>option.
            El ''SelectItem''
              [(''key'', PString (so_value option)),
               (''value'', PString (so_value option)),
               (''disabled'', bool_or_undefined (so_disabled option))]
              [Txt (so_text option)])
       (options p)"
  by (rule SelectField_items)


end
